theory Spec2Isabelle
  imports Complex_Main
begin

section \<open>LayerForge canvas node: stores, result cache and single-flight guard\<close>

text \<open>
  A shallow embedding of the class \<^verbatim>\<open>LayerForgeNode\<close> of \<^verbatim>\<open>canvas_node.py\<close>: its four
  class-level attributes (\<^verbatim>\<open>_canvas_data_storage\<close>, \<^verbatim>\<open>_canvas_cache\<close>,
  \<^verbatim>\<open>_websocket_data\<close>, \<^verbatim>\<open>_processing_lock\<close>) form the state, and every method and
  route handler that touches them is a function from states to states.

  The image library (PIL, numpy, torch, base64) is outside the repository and is a
  parameter of the model: a record of encoders and decoders, each returning \<open>None\<close>
  where the library would raise. Clock readings (\<^verbatim>\<open>time.time()\<close>) are parameters of type
  \<open>real\<close>: a double is the rational it denotes. Log calls have no effect on the state and
  are left out.
\<close>

subsection \<open>Data model\<close>

text \<open>
  A tensor is either the blank tensor \<^verbatim>\<open>torch.zeros(shape)\<close> or one built from a decoded
  pixel array (\<^verbatim>\<open>torch.from_numpy(...)[None,]\<close>); \<open>'px\<close> is the type of pixel arrays.
\<close>

datatype 'px tensor = Zeros "nat list" | FromArray 'px

text \<open>An optional node input: \<^verbatim>\<open>isinstance(x, torch.Tensor)\<close> holds or it does not.\<close>

datatype 'px py_value = Tensor 'px | NonTensor

datatype error = IndexError | DecodeError | EncodeError

text \<open>
  The external codec.
  \<^item> \<open>batch_size t\<close>: \<^verbatim>\<open>input_image.shape[0]\<close>, after a 3-dimensional tensor was unsqueezed;
  \<^item> \<open>encode_rgb_png t i\<close>: lines 232-236 for batch element \<open>i\<close>, giving the base64 text,
    the width and the height;
  \<^item> \<open>encode_l_png t\<close>: lines 254-264 for the mask, giving the base64 text;
  \<^item> \<open>decode_rgb s\<close>: lines 282-286 on the payload \<open>s\<close>;
  \<^item> \<open>decode_l s\<close>: lines 291-294 on the payload \<open>s\<close>.
\<close>

record 'px codec =
  batch_size :: "'px \<Rightarrow> nat"
  encode_rgb_png :: "'px \<Rightarrow> nat \<Rightarrow> (string \<times> nat \<times> nat) option"
  encode_l_png :: "'px \<Rightarrow> string option"
  decode_rgb :: "string \<Rightarrow> 'px option"
  decode_l :: "string \<Rightarrow> 'px option"

text \<open>One element of \<^verbatim>\<open>images_array\<close> (keys \<^verbatim>\<open>data\<close>, \<^verbatim>\<open>width\<close>, \<^verbatim>\<open>height\<close>).\<close>

record encoded_image =
  img_data :: string
  img_width :: nat
  img_height :: nat

text \<open>
  The dictionary \<^verbatim>\<open>input_data\<close> stored under \<^verbatim>\<open>"<node_id>_input"\<close>. A key that is not
  set is \<open>None\<close>.
\<close>

record input_data =
  input_image :: "string option"
  input_image_width :: "nat option"
  input_image_height :: "nat option"
  input_images_batch :: "encoded_image list option"
  input_mask :: "string option"
  fit_on_add :: "bool option"

text \<open>
  The dictionary the WebSocket handler stores under the node id (keys \<^verbatim>\<open>image\<close>,
  \<^verbatim>\<open>mask\<close>, \<^verbatim>\<open>timestamp\<close>).
\<close>

record canvas_data =
  cd_image :: "string option"
  cd_mask :: "string option"
  cd_timestamp :: real

text \<open>\<^verbatim>\<open>_canvas_data_storage\<close> holds both kinds of dictionary in one namespace.\<close>

datatype entry = InputData input_data | CanvasData canvas_data

text \<open>One value of \<^verbatim>\<open>data_flow_status\<close>.\<close>

record flow_status =
  fs_timestamp :: real
  fs_stage :: string
  fs_status :: string
  fs_data_info :: "string option"

text \<open>
  \<^verbatim>\<open>_canvas_cache\<close>. The dictionary \<^verbatim>\<open>persistent_cache\<close> is an association list:
  \<open>[]\<close> is the empty dictionary the class starts with.
\<close>

record 'px cache =
  cache_image :: "'px tensor option"
  cache_mask :: "'px tensor option"
  data_flow_status :: "string \<Rightarrow> flow_status option"
  persistent_cache :: "(string \<times> 'px tensor option) list"
  last_execution_id :: "string option"

text \<open>One value of \<^verbatim>\<open>_websocket_data\<close>; the key \<^verbatim>\<open>timestamp\<close> may be missing.\<close>

record ws_entry =
  ws_timestamp :: "real option"

text \<open>
  A call that writes \<^verbatim>\<open>_canvas_data_storage\<close>: an item assignment, a \<^verbatim>\<open>pop\<close> or a
  \<^verbatim>\<open>del\<close>, with its key.
\<close>

datatype storage_event = Stored string | Popped string | Deleted string

text \<open>
  The class-level state. \<open>processing_lock\<close> is \<open>True\<close> while \<^verbatim>\<open>_processing_lock\<close> is held.
  \<^verbatim>\<open>_storage_lock\<close> is taken and released inside single \<^verbatim>\<open>with\<close> blocks, each of which is
  one step here, so it needs no field. The keys of \<^verbatim>\<open>_websocket_data\<close> are compared with
  \<^verbatim>\<open>0\<close> by the cleanup and are integers.

  \<open>storage_log\<close> is no attribute of the class. It lists, in program order, the calls that
  wrote \<^verbatim>\<open>_canvas_data_storage\<close>, so that the order of two of them can be stated; no
  function of the model reads it.
\<close>

record 'px state =
  canvas_data_storage :: "string \<Rightarrow> entry option"
  canvas_cache :: "'px cache"
  websocket_data :: "(int \<times> ws_entry) list"
  processing_lock :: bool
  storage_log :: "storage_event list"

definition initial_cache :: "'px cache" where
  "initial_cache =
     \<lparr>cache_image = None, cache_mask = None, data_flow_status = Map.empty,
      persistent_cache = [], last_execution_id = None\<rparr>"

definition initial_state :: "'px state" where
  "initial_state =
     \<lparr>canvas_data_storage = Map.empty, canvas_cache = initial_cache,
      websocket_data = [], processing_lock = False, storage_log = []\<rparr>"

subsection \<open>Python helpers\<close>

text \<open>\<^verbatim>\<open>d.get(key)\<close> on a dictionary whose values may be \<^verbatim>\<open>None\<close>.\<close>

definition dict_get :: "(string \<times> 'v option) list \<Rightarrow> string \<Rightarrow> 'v option" where
  "dict_get d k = (case map_of d k of None \<Rightarrow> None | Some v \<Rightarrow> v)"

text \<open>\<^verbatim>\<open>s.split(sep)\<close> for a one-character separator.\<close>

fun split_acc :: "char \<Rightarrow> string \<Rightarrow> string \<Rightarrow> string list" where
  "split_acc sep acc [] = [rev acc]"
| "split_acc sep acc (x # xs) =
     (if x = sep then rev acc # split_acc sep [] xs else split_acc sep (x # acc) xs)"

definition split_str :: "string \<Rightarrow> char \<Rightarrow> string list" where
  "split_str s sep = split_acc sep [] s"

text \<open>\<^verbatim>\<open>parts[1]\<close>, which raises \<^verbatim>\<open>IndexError\<close> on a list shorter than two.\<close>

fun index1 :: "'a list \<Rightarrow> error + 'a" where
  "index1 (_ # p # _) = Inr p"
| "index1 _ = Inl IndexError"

text \<open>\<^verbatim>\<open>int(x)\<close> on a float truncates towards zero; \<^verbatim>\<open>str(n)\<close> is the decimal numeral.\<close>

definition py_int :: "real \<Rightarrow> int" where
  "py_int x = (if x < 0 then \<lceil>x\<rceil> else \<lfloor>x\<rfloor>)"

definition digit_char :: "nat \<Rightarrow> char" where
  "digit_char d = ''0123456789'' ! d"

fun str_nat :: "nat \<Rightarrow> string" where
  "str_nat n =
     (if n < 10 then [digit_char n]
      else str_nat (n div 10) @ [digit_char (n mod 10)])"

declare str_nat.simps [simp del]

definition str_int :: "int \<Rightarrow> string" where
  "str_int i = (if i < 0 then CHR ''-'' # str_nat (nat (- i)) else str_nat (nat i))"

text \<open>Truthiness of an optional string: \<^verbatim>\<open>None\<close> and \<^verbatim>\<open>''\<close> are false.\<close>

fun truthy_str :: "string option \<Rightarrow> bool" where
  "truthy_str None = False"
| "truthy_str (Some s) = (s \<noteq> [])"

text \<open>
  Truthiness of a stored dictionary: it is non-empty. A \<open>canvas_data\<close> always has its
  three keys.
\<close>

fun truthy_entry :: "entry \<Rightarrow> bool" where
  "truthy_entry (CanvasData c) = True"
| "truthy_entry (InputData d) =
     (input_image d \<noteq> None \<or> input_image_width d \<noteq> None \<or> input_image_height d \<noteq> None
      \<or> input_images_batch d \<noteq> None \<or> input_mask d \<noteq> None \<or> fit_on_add d \<noteq> None)"

text \<open>
  \<^verbatim>\<open>canvas_data.get('image')\<close> and \<^verbatim>\<open>canvas_data.get('mask')\<close> on a popped entry: an
  \<open>input_data\<close> dictionary has neither key.
\<close>

fun entry_get_image :: "entry \<Rightarrow> string option" where
  "entry_get_image (CanvasData c) = cd_image c"
| "entry_get_image (InputData d) = None"

fun entry_get_mask :: "entry \<Rightarrow> string option" where
  "entry_get_mask (CanvasData c) = cd_mask c"
| "entry_get_mask (InputData d) = None"

subsection \<open>The result cache (lines 95-148, 320-324)\<close>

text \<open>
  \<^verbatim>\<open>get_execution_id\<close> (lines 121-126). Its argument \<open>now_ms\<close> is the double
  \<^verbatim>\<open>time.time() * 1000\<close> itself: the product is rounded by the machine, the truncation
  and the decimal numeral are exact.
\<close>

definition get_execution_id :: "real \<Rightarrow> string option" where
  "get_execution_id now_ms = Some (str_int (py_int now_ms))"

text \<open>
  The body of \<^verbatim>\<open>restore_cache\<close> once \<^verbatim>\<open>current_execution\<close> is known (lines 106-117).
\<close>

definition restore_cache_at :: "string option \<Rightarrow> 'px cache \<Rightarrow> 'px cache" where
  "restore_cache_at current_execution c =
     (let persistent = persistent_cache c in
      if current_execution \<noteq> last_execution_id c then
        c\<lparr>cache_image := None, cache_mask := None, last_execution_id := current_execution\<rparr>
      else
        (let c1 = (case dict_get persistent ''image'' of
                     Some v \<Rightarrow> c\<lparr>cache_image := Some v\<rparr>
                   | None \<Rightarrow> c)
         in (case dict_get persistent ''mask'' of
               Some v \<Rightarrow> c1\<lparr>cache_mask := Some v\<rparr>
             | None \<Rightarrow> c1)))"

definition restore_cache :: "real \<Rightarrow> 'px cache \<Rightarrow> 'px cache" where
  "restore_cache now_ms c = restore_cache_at (get_execution_id now_ms) c"

text \<open>\<^verbatim>\<open>__init__\<close>: the only caller of \<^verbatim>\<open>restore_cache\<close>.\<close>

definition init_node :: "real \<Rightarrow> 'px cache \<Rightarrow> 'px cache" where
  "init_node now_ms c = (if persistent_cache c \<noteq> [] then restore_cache now_ms c else c)"

definition update_persistent_cache :: "'px cache \<Rightarrow> 'px cache" where
  "update_persistent_cache c =
     c\<lparr>persistent_cache := [(''image'', cache_image c), (''mask'', cache_mask c)]\<rparr>"

definition track_data_flow ::
  "string \<Rightarrow> real \<Rightarrow> string \<Rightarrow> string \<Rightarrow> string option \<Rightarrow> 'px cache \<Rightarrow> 'px cache" where
  "track_data_flow flow_id now stage status data_info c =
     c\<lparr>data_flow_status := (data_flow_status c)(flow_id \<mapsto>
         \<lparr>fs_timestamp = now, fs_stage = stage, fs_status = status,
          fs_data_info = data_info\<rparr>)\<rparr>"

text \<open>
  What \<^verbatim>\<open>process_canvas_image\<close> returns: the tuple \<^verbatim>\<open>(image, mask)\<close>, or the dictionary
  of \<^verbatim>\<open>get_cached_data\<close>.
\<close>

datatype 'px result =
  Outputs "'px tensor option" "'px tensor option"
| CachedData "'px tensor option" "'px tensor option"

definition get_cached_data :: "'px cache \<Rightarrow> 'px result" where
  "get_cached_data c = CachedData (cache_image c) (cache_mask c)"

subsection \<open>The shared store (lines 269, 275-276, 426-431, 458-460, 489-492)\<close>

text \<open>\<^verbatim>\<open>f"{node_id}_input"\<close>.\<close>

definition input_key :: "string \<Rightarrow> string" where
  "input_key node_id = node_id @ ''_input''"

text \<open>
  Line 269, the write of the node's input snapshot (\<^verbatim>\<open>put\<close> of the NodeInputStore).
\<close>

definition store_input :: "string \<Rightarrow> input_data \<Rightarrow> 'px state \<Rightarrow> 'px state" where
  "store_input node_id d st =
     st\<lparr>canvas_data_storage := (canvas_data_storage st)(input_key node_id \<mapsto> InputData d),
        storage_log := storage_log st @ [Stored (input_key node_id)]\<rparr>"

text \<open>
  Lines 426-431, the write of an edit under the storage lock (\<^verbatim>\<open>receive\<close> of the
  PushChannelStore), stamped with the clock reading.
\<close>

definition receive ::
  "string \<Rightarrow> string option \<Rightarrow> string option \<Rightarrow> real \<Rightarrow> 'px state \<Rightarrow> 'px state" where
  "receive node_id image_data mask_data now st =
     st\<lparr>canvas_data_storage := (canvas_data_storage st)(node_id \<mapsto>
         CanvasData \<lparr>cd_image = image_data, cd_mask = mask_data, cd_timestamp = now\<rparr>),
        storage_log := storage_log st @ [Stored node_id]\<rparr>"

text \<open>
  Lines 275-276, \<^verbatim>\<open>_canvas_data_storage.pop(storage_key, None)\<close> (\<^verbatim>\<open>takeAndClear\<close> of the
  PushChannelStore).
\<close>

definition storage_pop :: "string \<Rightarrow> 'px state \<Rightarrow> entry option \<times> 'px state" where
  "storage_pop storage_key st =
     (canvas_data_storage st storage_key,
      st\<lparr>canvas_data_storage := (canvas_data_storage st)(storage_key := None),
         storage_log := storage_log st @ [Popped storage_key]\<rparr>)"

text \<open>
  One text message of the WebSocket route, already parsed as JSON (lines 417-445): a
  missing or empty \<^verbatim>\<open>nodeId\<close> is answered with an error and nothing is stored.
\<close>

datatype ws_reply = Ack string | ErrorReply string

definition handle_canvas_websocket ::
  "string option \<Rightarrow> string option \<Rightarrow> string option \<Rightarrow> real \<Rightarrow> 'px state
     \<Rightarrow> ws_reply \<times> 'px state" where
  "handle_canvas_websocket node_id image_data mask_data now st =
     (if \<not> truthy_str node_id then (ErrorReply ''nodeId is required'', st)
      else (case node_id of
              Some n \<Rightarrow> (Ack n, receive n image_data mask_data now st)
            | None \<Rightarrow> (ErrorReply ''nodeId is required'', st)))"

text \<open>The poll route (lines 452-474); the state is returned as the route leaves it.\<close>

datatype poll_reply = HasInput entry | NoInput

definition get_input_data :: "string \<Rightarrow> 'px state \<Rightarrow> poll_reply \<times> 'px state" where
  "get_input_data node_id st =
     (let input_data = canvas_data_storage st (input_key node_id) in
      (case input_data of
         Some d \<Rightarrow> if truthy_entry d then (HasInput d, st) else (NoInput, st)
       | None \<Rightarrow> (NoInput, st)))"

text \<open>The clear route (lines 483-500).\<close>

definition clear_input_data :: "string \<Rightarrow> 'px state \<Rightarrow> 'px state" where
  "clear_input_data node_id st =
     (if canvas_data_storage st (input_key node_id) \<noteq> None
      then st\<lparr>canvas_data_storage := (canvas_data_storage st)(input_key node_id := None),
              storage_log := storage_log st @ [Deleted (input_key node_id)]\<rparr>
      else st)"

text \<open>
  \<^verbatim>\<open>_cleanup_old_websocket_data\<close> (lines 379-405). It walks \<^verbatim>\<open>_websocket_data\<close>, collects
  the keys to remove and deletes them; \<^verbatim>\<open>data.get('timestamp', 0)\<close> defaults to \<open>0\<close>.
\<close>

definition cleanup_threshold :: real where
  "cleanup_threshold = 300"

definition ws_timestamp_or_0 :: "ws_entry \<Rightarrow> real" where
  "ws_timestamp_or_0 d = (case ws_timestamp d of None \<Rightarrow> 0 | Some t \<Rightarrow> t)"

fun nodes_to_remove :: "real \<Rightarrow> (int \<times> ws_entry) list \<Rightarrow> int list" where
  "nodes_to_remove current_time [] = []"
| "nodes_to_remove current_time ((node_id, d) # rest) =
     (if node_id < 0 then node_id # nodes_to_remove current_time rest
      else if current_time - ws_timestamp_or_0 d > cleanup_threshold
      then node_id # nodes_to_remove current_time rest
      else nodes_to_remove current_time rest)"

fun del_keys :: "int list \<Rightarrow> (int \<times> ws_entry) list \<Rightarrow> (int \<times> ws_entry) list" where
  "del_keys [] ws = ws"
| "del_keys (k # ks) ws = del_keys ks (filter (\<lambda>(k', _). k' \<noteq> k) ws)"

definition cleanup_old_websocket_data :: "real \<Rightarrow> 'px state \<Rightarrow> 'px state" where
  "cleanup_old_websocket_data current_time st =
     st\<lparr>websocket_data :=
          del_keys (nodes_to_remove current_time (websocket_data st)) (websocket_data st)\<rparr>"

subsection \<open>The computation step (lines 212-318)\<close>

text \<open>\<^verbatim>\<open>f"data:image/png;base64,{img_str}"\<close>.\<close>

definition data_uri :: "string \<Rightarrow> string" where
  "data_uri b64 = ''data:image/png;base64,'' @ b64"

text \<open>
  The loop of lines 229-242 over \<^verbatim>\<open>range(batch_size)\<close>; an exception of the encoder leaves
  the loop.
\<close>

fun encode_batch :: "'px codec \<Rightarrow> 'px \<Rightarrow> nat list \<Rightarrow> error + encoded_image list" where
  "encode_batch cd t [] = Inr []"
| "encode_batch cd t (i # ks) =
     (case encode_rgb_png cd t i of
        None \<Rightarrow> Inl EncodeError
      | Some (img_str, w, h) \<Rightarrow>
          (case encode_batch cd t ks of
             Inl e \<Rightarrow> Inl e
           | Inr images_array \<Rightarrow>
               Inr (\<lparr>img_data = data_uri img_str, img_width = w, img_height = h\<rparr>
                    # images_array)))"

definition empty_input_data :: input_data where
  "empty_input_data =
     \<lparr>input_image = None, input_image_width = None, input_image_height = None,
      input_images_batch = None, input_mask = None, fit_on_add = None\<rparr>"

text \<open>Lines 222-250: the image part of \<^verbatim>\<open>input_data\<close>.\<close>

definition put_input_image ::
  "'px codec \<Rightarrow> 'px py_value option \<Rightarrow> input_data \<Rightarrow> error + input_data" where
  "put_input_image cd input_image_arg d =
     (case input_image_arg of
        None \<Rightarrow> Inr d
      | Some NonTensor \<Rightarrow> Inr d
      | Some (Tensor t) \<Rightarrow>
          (case encode_batch cd t [0 ..< batch_size cd t] of
             Inl e \<Rightarrow> Inl e
           | Inr images_array \<Rightarrow>
               if batch_size cd t = 1 then
                 Inr (d\<lparr>input_image := Some (img_data (images_array ! 0)),
                        input_image_width := Some (img_width (images_array ! 0)),
                        input_image_height := Some (img_height (images_array ! 0))\<rparr>)
               else Inr (d\<lparr>input_images_batch := Some images_array\<rparr>)))"

text \<open>Lines 252-266: the mask part of \<^verbatim>\<open>input_data\<close>.\<close>

definition put_input_mask ::
  "'px codec \<Rightarrow> 'px py_value option \<Rightarrow> input_data \<Rightarrow> error + input_data" where
  "put_input_mask cd input_mask_arg d =
     (case input_mask_arg of
        None \<Rightarrow> Inr d
      | Some NonTensor \<Rightarrow> Inr d
      | Some (Tensor t) \<Rightarrow>
          (case encode_l_png cd t of
             None \<Rightarrow> Inl EncodeError
           | Some mask_str \<Rightarrow> Inr (d\<lparr>input_mask := Some (data_uri mask_str)\<rparr>)))"

text \<open>Lines 221-268: \<^verbatim>\<open>input_data\<close> as it is stored.\<close>

definition build_input_data ::
  "'px codec \<Rightarrow> bool \<Rightarrow> 'px py_value option \<Rightarrow> 'px py_value option
     \<Rightarrow> error + input_data" where
  "build_input_data cd fit_on_add_arg input_image_arg input_mask_arg =
     (case put_input_image cd input_image_arg empty_input_data of
        Inl e \<Rightarrow> Inl e
      | Inr d1 \<Rightarrow>
          (case put_input_mask cd input_mask_arg d1 of
             Inl e \<Rightarrow> Inl e
           | Inr d2 \<Rightarrow> Inr (d2\<lparr>fit_on_add := Some fit_on_add_arg\<rparr>)))"

text \<open>
  Lines 280-287 and 289-295: \<^verbatim>\<open>uri.split(',')[1]\<close>, then the decoder. A value that is
  \<^verbatim>\<open>None\<close> or empty is skipped.
\<close>

definition load_image :: "'px codec \<Rightarrow> string \<Rightarrow> error + 'px tensor" where
  "load_image cd uri =
     (case index1 (split_str uri CHR '','') of
        Inl e \<Rightarrow> Inl e
      | Inr image_data \<Rightarrow>
          (case decode_rgb cd image_data of
             None \<Rightarrow> Inl DecodeError
           | Some image_array \<Rightarrow> Inr (FromArray image_array)))"

definition load_mask :: "'px codec \<Rightarrow> string \<Rightarrow> error + 'px tensor" where
  "load_mask cd uri =
     (case index1 (split_str uri CHR '','') of
        Inl e \<Rightarrow> Inl e
      | Inr mask_data \<Rightarrow>
          (case decode_l cd mask_data of
             None \<Rightarrow> Inl DecodeError
           | Some mask_array \<Rightarrow> Inr (FromArray mask_array)))"

text \<open>
  Lines 272-297: \<^verbatim>\<open>processed_image\<close> and \<^verbatim>\<open>processed_mask\<close> from the popped entry.
\<close>

definition load_if_truthy ::
  "(string \<Rightarrow> error + 'px tensor) \<Rightarrow> string option \<Rightarrow> error + 'px tensor option" where
  "load_if_truthy load v =
     (case v of
        None \<Rightarrow> Inr None
      | Some uri \<Rightarrow>
          if uri = [] then Inr None
          else (case load uri of Inl e \<Rightarrow> Inl e | Inr t \<Rightarrow> Inr (Some t)))"

definition decode_canvas_data ::
  "'px codec \<Rightarrow> entry option \<Rightarrow> error + ('px tensor option \<times> 'px tensor option)" where
  "decode_canvas_data cd canvas_data =
     (case canvas_data of
        None \<Rightarrow> Inr (None, None)
      | Some e \<Rightarrow>
          if \<not> truthy_entry e then Inr (None, None)
          else
            (case load_if_truthy (load_image cd) (entry_get_image e) of
               Inl err \<Rightarrow> Inl err
             | Inr processed_image \<Rightarrow>
                 (case load_if_truthy (load_mask cd) (entry_get_mask e) of
                    Inl err \<Rightarrow> Inl err
                  | Inr processed_mask \<Rightarrow> Inr (processed_image, processed_mask))))"

text \<open>Lines 300-305: the blank tensors that replace a missing output.\<close>

definition default_image_shape :: "nat list" where
  "default_image_shape = [1, 512, 512, 3]"

definition default_mask_shape :: "nat list" where
  "default_mask_shape = [1, 512, 512]"

text \<open>
  Line 214, \<^verbatim>\<open>_processing_lock.acquire(blocking=False)\<close>: whether the lock was taken, and
  the state.
\<close>

definition acquire :: "'px state \<Rightarrow> bool \<times> 'px state" where
  "acquire st =
     (if processing_lock st then (False, st) else (True, st\<lparr>processing_lock := True\<rparr>))"

text \<open>
  Lines 217-310, the region run with the lock held. An exception is \<open>Inl\<close>; the state
  keeps what was written before it was raised.
\<close>

definition guarded_region ::
  "'px codec \<Rightarrow> bool \<Rightarrow> string \<Rightarrow> 'px py_value option \<Rightarrow> 'px py_value option
     \<Rightarrow> 'px state \<Rightarrow> (error + 'px result) \<times> 'px state" where
  "guarded_region cd fit_on_add_arg node_id input_image_arg input_mask_arg st =
     (case build_input_data cd fit_on_add_arg input_image_arg input_mask_arg of
        Inl e \<Rightarrow> (Inl e, st)
      | Inr d \<Rightarrow>
          (let st1 = store_input node_id d st;
               (canvas_data, st2) = storage_pop node_id st1
           in (case decode_canvas_data cd canvas_data of
                 Inl e \<Rightarrow> (Inl e, st2)
               | Inr (loaded_image, loaded_mask) \<Rightarrow>
                   (let processed_image =
                          (case loaded_image of None \<Rightarrow> Zeros default_image_shape | Some t \<Rightarrow> t);
                        processed_mask =
                          (case loaded_mask of None \<Rightarrow> Zeros default_mask_shape | Some t \<Rightarrow> t);
                        st3 = st2\<lparr>canvas_cache := update_persistent_cache (canvas_cache st2)\<rparr>
                    in (Inr (Outputs (Some processed_image) (Some processed_mask)), st3)))))"

text \<open>
  Lines 315-318, the \<^verbatim>\<open>finally\<close> clause: it runs on every way out of the \<^verbatim>\<open>try\<close>,
  the early return of line 216 included.
\<close>

definition finally_release :: "'px state \<Rightarrow> 'px state" where
  "finally_release st = (if processing_lock st then st\<lparr>processing_lock := False\<rparr> else st)"

text \<open>
  \<^verbatim>\<open>process_canvas_image\<close>. The arguments \<^verbatim>\<open>show_preview\<close>,
  \<^verbatim>\<open>auto_refresh_after_generation\<close>, \<^verbatim>\<open>trigger\<close>, \<^verbatim>\<open>prompt\<close> and \<^verbatim>\<open>unique_id\<close> are read by
  log calls only. The \<^verbatim>\<open>except\<close> clause of lines 312-314 turns every exception into
  \<^verbatim>\<open>(None, None)\<close>.
\<close>

definition process_canvas_image ::
  "'px codec \<Rightarrow> bool \<Rightarrow> string \<Rightarrow> 'px py_value option \<Rightarrow> 'px py_value option
     \<Rightarrow> 'px state \<Rightarrow> 'px result \<times> 'px state" where
  "process_canvas_image cd fit_on_add_arg node_id input_image_arg input_mask_arg st =
     (let (acquired, st1) = acquire st;
          (r, st2) =
            (if \<not> acquired then (Inr (get_cached_data (canvas_cache st1)), st1)
             else guarded_region cd fit_on_add_arg node_id input_image_arg input_mask_arg st1);
          returned = (case r of Inl e \<Rightarrow> Outputs None None | Inr x \<Rightarrow> x)
      in (returned, finally_release st2))"

text \<open>
  A codec to run the model on concrete inputs. \<open>Batch1 w h\<close> stands for a well-formed
  tensor holding one image of width \<open>w\<close> and height \<open>h\<close>, which the library encodes;
  \<open>Malformed\<close> for a tensor it refuses, such as a one-dimensional one of three elements,
  where \<^verbatim>\<open>Image.fromarray\<close> raises. The text an encoder returns plays no part in any
  statement. The decoders refuse every payload, as the library does for text that is no
  encoded image; no statement runs them on an encoded image.
\<close>

datatype sample_tensor = Batch1 nat nat | Malformed

definition sample_codec :: "sample_tensor codec" where
  "sample_codec =
     \<lparr>batch_size = (\<lambda>t. case t of Batch1 w h \<Rightarrow> 1 | Malformed \<Rightarrow> 3),
      encode_rgb_png =
        (\<lambda>t i. case t of Batch1 w h \<Rightarrow> Some (''iVBORw0KGgo'', w, h) | Malformed \<Rightarrow> None),
      encode_l_png = (\<lambda>t. case t of Batch1 w h \<Rightarrow> Some ''iVBORw0KGgo'' | Malformed \<Rightarrow> None),
      decode_rgb = (\<lambda>s. None), decode_l = (\<lambda>s. None)\<rparr>"

subsection \<open>The operations on the class state\<close>

text \<open>
  The entry points that read or write the class attributes: the constructor, the
  computation step, the flow tracker, the cleanup and the route handlers.
\<close>

datatype 'px operation =
  Init real
| ProcessCanvasImage "'px codec" bool string "'px py_value option" "'px py_value option"
| TrackDataFlow string real string string "string option"
| GetCachedData
| CleanupOldWebsocketData real
| WebSocketMessage "string option" "string option" "string option" real
| GetInputData string
| ClearInputData string

fun run :: "'px operation \<Rightarrow> 'px state \<Rightarrow> 'px state" where
  "run (Init now_ms) st = st\<lparr>canvas_cache := init_node now_ms (canvas_cache st)\<rparr>"
| "run (ProcessCanvasImage cd fit_on_add_arg node_id input_image_arg input_mask_arg) st =
     snd (process_canvas_image cd fit_on_add_arg node_id input_image_arg input_mask_arg st)"
| "run (TrackDataFlow flow_id now stage status data_info) st =
     st\<lparr>canvas_cache := track_data_flow flow_id now stage status data_info (canvas_cache st)\<rparr>"
| "run GetCachedData st = st"
| "run (CleanupOldWebsocketData now) st = cleanup_old_websocket_data now st"
| "run (WebSocketMessage node_id image_data mask_data now) st =
     snd (handle_canvas_websocket node_id image_data mask_data now st)"
| "run (GetInputData node_id) st = snd (get_input_data node_id st)"
| "run (ClearInputData node_id) st = clear_input_data node_id st"

text \<open>
  An operation is a successful computation when it is a run of the computation step
  that returns the tuple of two tensors.
\<close>

fun successful_computation :: "'px operation \<Rightarrow> 'px state \<Rightarrow> bool" where
  "successful_computation
     (ProcessCanvasImage cd fit_on_add_arg node_id input_image_arg input_mask_arg) st =
     (case fst (process_canvas_image cd fit_on_add_arg node_id input_image_arg input_mask_arg st) of
        Outputs (Some img) (Some msk) \<Rightarrow> True
      | _ \<Rightarrow> False)"
| "successful_computation _ st = False"

text \<open>The persistent copy holds exactly the two live fields.\<close>

definition copied_wholesale :: "'px cache \<Rightarrow> bool" where
  "copied_wholesale c =
     (persistent_cache c = [(''image'', cache_image c), (''mask'', cache_mask c)])"

text \<open>Nothing is cached: both live fields and both keys of the persistent copy are empty.\<close>

definition cache_empty :: "'px cache \<Rightarrow> bool" where
  "cache_empty c =
     (cache_image c = None \<and> cache_mask c = None
      \<and> dict_get (persistent_cache c) ''image'' = None
      \<and> dict_get (persistent_cache c) ''mask'' = None)"

subsection \<open>Scenarios\<close>

text \<open>An editor pushes an edit for node \<open>n1\<close> at time \<open>0\<close>.\<close>

definition edit_uri :: string where
  "edit_uri = ''data:image/png;base64,QUJD''"

definition edited_state :: "'px state" where
  "edited_state = snd (handle_canvas_websocket (Some ''n1'') (Some edit_uri) None 0 initial_state)"

text \<open>
  A run of the computation step whose execution has been recorded: a first run leaves a
  persistent copy, a node constructed at clock reading \<open>12000\<close> milliseconds then
  compares execution ids, and the step runs again.
\<close>

definition recorded_state :: "'px codec \<Rightarrow> 'px state" where
  "recorded_state cd =
     run (Init 12000) (run (ProcessCanvasImage cd False ''n1'' None None) initial_state)"

definition recorded_run :: "'px codec \<Rightarrow> 'px result \<times> 'px state" where
  "recorded_run cd = process_canvas_image cd False ''n1'' None None (recorded_state cd)"

text \<open>A state in which another run of the computation step holds the lock.\<close>

definition in_flight :: "'px state \<Rightarrow> 'px state" where
  "in_flight st = snd (acquire st)"

section \<open>Properties\<close>

subsection \<open>Auxiliary facts\<close>

lemmas step_defs =
  process_canvas_image_def acquire_def guarded_region_def build_input_data_def
  put_input_image_def put_input_mask_def store_input_def storage_pop_def
  decode_canvas_data_def load_if_truthy_def load_image_def load_mask_def split_str_def
  default_mask_shape_def default_image_shape_def handle_canvas_websocket_def
  receive_def initial_state_def initial_cache_def input_key_def finally_release_def
  update_persistent_cache_def empty_input_data_def get_cached_data_def

lemmas scenario_defs =
  edited_state_def in_flight_def edit_uri_def recorded_state_def recorded_run_def

lemma input_key_neq: "input_key n \<noteq> n" "n \<noteq> input_key n"
  by (simp_all add: input_key_def)

lemma build_input_data_no_inputs:
  "build_input_data cd f None None = Inr (empty_input_data\<lparr>fit_on_add := Some f\<rparr>)"
  by (simp add: build_input_data_def put_input_image_def put_input_mask_def)

text \<open>The three ways through the computation step.\<close>

lemma process_skipped:
  "processing_lock st \<Longrightarrow>
   process_canvas_image cd f n i m st =
     (get_cached_data (canvas_cache st), st\<lparr>processing_lock := False\<rparr>)"
  by (simp add: process_canvas_image_def acquire_def finally_release_def)

lemma process_encode_error:
  "\<not> processing_lock st \<Longrightarrow> build_input_data cd f i m = Inl e \<Longrightarrow>
   process_canvas_image cd f n i m st = (Outputs None None, st)"
  by (simp add: process_canvas_image_def acquire_def finally_release_def guarded_region_def)

lemma process_entered:
  "\<not> processing_lock st \<Longrightarrow> build_input_data cd f i m = Inr d \<Longrightarrow>
   process_canvas_image cd f n i m st =
     (case decode_canvas_data cd (canvas_data_storage st n) of
        Inl e \<Rightarrow>
          (Outputs None None,
           st\<lparr>canvas_data_storage :=
                ((canvas_data_storage st)(input_key n \<mapsto> InputData d))(n := None),
              storage_log := storage_log st @ [Stored (input_key n), Popped n]\<rparr>)
      | Inr (li, lm) \<Rightarrow>
          (Outputs (Some (case li of None \<Rightarrow> Zeros default_image_shape | Some t \<Rightarrow> t))
                   (Some (case lm of None \<Rightarrow> Zeros default_mask_shape | Some t \<Rightarrow> t)),
           st\<lparr>canvas_data_storage :=
                ((canvas_data_storage st)(input_key n \<mapsto> InputData d))(n := None),
              storage_log := storage_log st @ [Stored (input_key n), Popped n],
              canvas_cache := update_persistent_cache (canvas_cache st)\<rparr>))"
  by (simp add: process_canvas_image_def acquire_def finally_release_def guarded_region_def
      store_input_def storage_pop_def input_key_neq Let_def split: sum.splits prod.splits)

text \<open>Every run of the step takes exactly one of four ways.\<close>

lemma process_cases:
  obtains (skipped) "processing_lock st"
      "process_canvas_image cd f n i m st =
         (get_cached_data (canvas_cache st), st\<lparr>processing_lock := False\<rparr>)"
  | (encode_error) "\<not> processing_lock st"
      "process_canvas_image cd f n i m st = (Outputs None None, st)"
  | (decode_error) d where "\<not> processing_lock st" "build_input_data cd f i m = Inr d"
      "process_canvas_image cd f n i m st =
         (Outputs None None,
          st\<lparr>canvas_data_storage :=
               ((canvas_data_storage st)(input_key n \<mapsto> InputData d))(n := None),
             storage_log := storage_log st @ [Stored (input_key n), Popped n]\<rparr>)"
  | (success) d li lm where "\<not> processing_lock st" "build_input_data cd f i m = Inr d"
      "decode_canvas_data cd (canvas_data_storage st n) = Inr (li, lm)"
      "process_canvas_image cd f n i m st =
         (Outputs (Some (case li of None \<Rightarrow> Zeros default_image_shape | Some t \<Rightarrow> t))
                  (Some (case lm of None \<Rightarrow> Zeros default_mask_shape | Some t \<Rightarrow> t)),
          st\<lparr>canvas_data_storage :=
               ((canvas_data_storage st)(input_key n \<mapsto> InputData d))(n := None),
             storage_log := storage_log st @ [Stored (input_key n), Popped n],
             canvas_cache := update_persistent_cache (canvas_cache st)\<rparr>)"
proof (cases "processing_lock st")
  case True
  then show ?thesis using skipped process_skipped by blast
next
  case False
  show ?thesis
  proof (cases "build_input_data cd f i m")
    case (Inl e)
    with False show ?thesis using encode_error process_encode_error by blast
  next
    case (Inr d)
    note ent = process_entered [OF False Inr, of n]
    show ?thesis
    proof (cases "decode_canvas_data cd (canvas_data_storage st n)")
      case (Inl e)
      with ent have "process_canvas_image cd f n i m st =
         (Outputs None None,
          st\<lparr>canvas_data_storage :=
               ((canvas_data_storage st)(input_key n \<mapsto> InputData d))(n := None),
             storage_log := storage_log st @ [Stored (input_key n), Popped n]\<rparr>)"
        by simp
      with False Inr show ?thesis using decode_error by blast
    next
      case (Inr p)
      obtain li lm where p: "p = (li, lm)" by (cases p)
      with ent Inr have "process_canvas_image cd f n i m st =
         (Outputs (Some (case li of None \<Rightarrow> Zeros default_image_shape | Some t \<Rightarrow> t))
                  (Some (case lm of None \<Rightarrow> Zeros default_mask_shape | Some t \<Rightarrow> t)),
          st\<lparr>canvas_data_storage :=
               ((canvas_data_storage st)(input_key n \<mapsto> InputData d))(n := None),
             storage_log := storage_log st @ [Stored (input_key n), Popped n],
             canvas_cache := update_persistent_cache (canvas_cache st)\<rparr>)"
        by simp
      with False \<open>build_input_data cd f i m = Inr d\<close> Inr p show ?thesis using success by blast
    qed
  qed
qed

text \<open>The computation step never writes the live fields or the execution id.\<close>

lemma process_keeps_live_fields:
  "cache_image (canvas_cache (snd (process_canvas_image cd f n i m st)))
     = cache_image (canvas_cache st)
   \<and> cache_mask (canvas_cache (snd (process_canvas_image cd f n i m st)))
     = cache_mask (canvas_cache st)
   \<and> last_execution_id (canvas_cache (snd (process_canvas_image cd f n i m st)))
     = last_execution_id (canvas_cache st)"
  by (rule process_cases [where st = st and cd = cd and f = f and n = n and i = i and m = m])
    (simp_all add: update_persistent_cache_def)

text \<open>Whatever the way out, the lock is free afterwards.\<close>

lemma process_leaves_lock_free:
  "\<not> processing_lock (snd (process_canvas_image cd f n i m st))"
  by (rule process_cases [where st = st and cd = cd and f = f and n = n and i = i and m = m])
    simp_all

text \<open>A run with no node inputs, the lock free and no entry for the node id.\<close>

lemma process_no_edit:
  assumes "\<not> processing_lock st" and "canvas_data_storage st n = None"
  shows "process_canvas_image cd f n None None st =
           (Outputs (Some (Zeros [1, 512, 512, 3])) (Some (Zeros [1, 512, 512])),
            st\<lparr>canvas_data_storage :=
                 ((canvas_data_storage st)
                    (input_key n \<mapsto> InputData (empty_input_data\<lparr>fit_on_add := Some f\<rparr>)))
                    (n := None),
               storage_log := storage_log st @ [Stored (input_key n), Popped n],
               canvas_cache := update_persistent_cache (canvas_cache st)\<rparr>)"
  using assms
  by (simp add: process_entered [OF _ build_input_data_no_inputs] decode_canvas_data_def
      default_image_shape_def default_mask_shape_def)

text \<open>Facts about \<^verbatim>\<open>restore_cache\<close> and \<^verbatim>\<open>update_persistent_cache\<close>.\<close>

lemma restore_cache_at_id: "last_execution_id (restore_cache_at e c) = e"
  by (simp add: restore_cache_at_def Let_def split: option.splits)

lemma restore_cache_at_persistent:
  "persistent_cache (restore_cache_at e c) = persistent_cache c"
  by (simp add: restore_cache_at_def Let_def split: option.splits)

lemma restore_cache_at_new:
  "e \<noteq> last_execution_id c \<Longrightarrow>
   restore_cache_at e c = c\<lparr>cache_image := None, cache_mask := None, last_execution_id := e\<rparr>"
  by (simp add: restore_cache_at_def)

lemma restore_cache_at_same:
  assumes "last_execution_id c = e" and "copied_wholesale c"
  shows "restore_cache_at e c = c"
proof -
  have "dict_get (persistent_cache c) ''image'' = cache_image c"
    and "dict_get (persistent_cache c) ''mask'' = cache_mask c"
    using assms(2) by (simp_all add: copied_wholesale_def dict_get_def)
  with assms(1) show ?thesis
    by (simp add: restore_cache_at_def split: option.splits)
qed

lemma copied_wholesale_update: "copied_wholesale (update_persistent_cache c)"
  by (simp add: copied_wholesale_def update_persistent_cache_def)

lemma str_nat_example: "str_nat 12000 = ''12000''"
  by (simp add: str_nat.simps digit_char_def)

lemma get_execution_id_example: "get_execution_id 12000 = Some ''12000''"
  by (simp add: get_execution_id_def py_int_def str_int_def str_nat_example)

text \<open>
  No operation ever puts a tensor into the cache: an empty cache stays empty, so in
  every state reached from the initial one both live fields are \<^verbatim>\<open>None\<close>.
\<close>

lemma cache_empty_restore: "cache_empty c \<Longrightarrow> cache_empty (restore_cache_at e c)"
  by (simp add: cache_empty_def restore_cache_at_def Let_def split: option.splits)

lemma cache_empty_update: "cache_empty c \<Longrightarrow> cache_empty (update_persistent_cache c)"
  by (simp add: cache_empty_def update_persistent_cache_def dict_get_def)

lemma cache_empty_initial: "cache_empty (canvas_cache initial_state)"
  by (simp add: cache_empty_def initial_state_def initial_cache_def dict_get_def)

lemma cache_stays_empty:
  assumes "cache_empty (canvas_cache st)"
  shows "cache_empty (canvas_cache (run a st))"
proof (cases a)
  case (ProcessCanvasImage cd f n i m)
  show ?thesis
    unfolding ProcessCanvasImage using assms
    by (rule_tac process_cases [where st = st and cd = cd and f = f and n = n and i = i and m = m])
       (simp_all add: cache_empty_update)
next
  case (Init now_ms)
  with assms show ?thesis
    by (simp add: init_node_def restore_cache_def cache_empty_restore)
next
  case (TrackDataFlow flow_id now stage status data_info)
  with assms show ?thesis by (simp add: track_data_flow_def cache_empty_def)
next
  case GetCachedData
  with assms show ?thesis by simp
next
  case (CleanupOldWebsocketData now)
  with assms show ?thesis by (simp add: cleanup_old_websocket_data_def)
next
  case (WebSocketMessage node_id image_data mask_data now)
  with assms show ?thesis
    by (simp add: handle_canvas_websocket_def receive_def split: option.splits)
next
  case (GetInputData node_id)
  with assms show ?thesis by (simp add: get_input_data_def Let_def split: option.splits)
next
  case (ClearInputData node_id)
  with assms show ?thesis by (simp add: clear_input_data_def)
qed

subsection \<open>The skipped path and the result cache\<close>

text \<open>
  Claim C1. A successful run of the computation step should commit its image and mask
  into the live fields of the result cache, so that a later caller that finds the lock
  taken is handed that last pair. The code does not do so: the step calls
  \<^verbatim>\<open>update_persistent_cache\<close> (line 308) but never assigns \<^verbatim>\<open>_canvas_cache['image']\<close> or
  \<^verbatim>\<open>_canvas_cache['mask']\<close>. Whatever the codec: a run from the initial state, with no
  edit pushed, acquires the lock, raises nothing and returns the two blank tensors; the
  live fields are still empty afterwards, and a caller arriving while another run is in
  flight is handed \<^verbatim>\<open>{'image': None, 'mask': None}\<close>, not the pair just produced.
\<close>

theorem C1_skipped_caller_gets_empty_cache:
  "fst (process_canvas_image cd False ''n1'' None None initial_state)
     = Outputs (Some (Zeros [1, 512, 512, 3])) (Some (Zeros [1, 512, 512]))
   \<and> cache_image (canvas_cache (snd (process_canvas_image cd False ''n1'' None None
                                        initial_state))) = None
   \<and> cache_mask (canvas_cache (snd (process_canvas_image cd False ''n1'' None None
                                       initial_state))) = None
   \<and> processing_lock
       (in_flight (snd (process_canvas_image cd False ''n1'' None None initial_state)))
   \<and> fst (process_canvas_image cd False ''n1'' None None
            (in_flight (snd (process_canvas_image cd False ''n1'' None None initial_state))))
       = CachedData None None"
  by (simp add: step_defs scenario_defs)

text \<open>
  Claim C2. The lock should be released once per successful acquisition, and a caller
  that failed to acquire it should leave it held. The \<^verbatim>\<open>finally\<close> clause (lines 315-318)
  also runs on the early return of line 216, sees \<^verbatim>\<open>locked()\<close> true because the
  in-flight run holds the lock, and releases it: after the skipped call the lock is
  free and a third caller acquires it while the first run is still in its region.
\<close>

theorem C2_skipped_call_releases_lock:
  "processing_lock (in_flight initial_state)
   \<and> fst (process_canvas_image cd False ''n1'' None None (in_flight initial_state))
       = CachedData None None
   \<and> \<not> processing_lock
         (snd (process_canvas_image cd False ''n1'' None None (in_flight initial_state)))
   \<and> fst (acquire
         (snd (process_canvas_image cd False ''n1'' None None
                (in_flight initial_state))))"
  by (simp add: step_defs scenario_defs)

text \<open>
  Claim C3. When the step raises internally it should still return a non-null image and
  mask, the blank placeholders. The \<^verbatim>\<open>except\<close> clause returns \<^verbatim>\<open>(None, None)\<close> (line 314):
  an edit whose image text has no comma makes \<^verbatim>\<open>split(',')[1]\<close> raise, whatever the codec,
  and both outputs are \<^verbatim>\<open>None\<close>. The exception itself does not leave the step.
\<close>

theorem C3_decode_error_returns_none:
  "load_image cd ''not-an-image'' = Inl IndexError
   \<and> fst (process_canvas_image cd False ''n1'' None None
           (receive ''n1'' (Some ''not-an-image'') None 0 initial_state))
       = Outputs None None"
  by (simp add: step_defs)

subsection \<open>The push-channel store\<close>

text \<open>
  Claim C5. An edit older than the five-minute threshold should be gone when the step
  next pops the node's entry. \<^verbatim>\<open>_cleanup_old_websocket_data\<close> walks \<^verbatim>\<open>_websocket_data\<close>,
  which nothing writes, while the edits live in \<^verbatim>\<open>_canvas_data_storage\<close>; and
  nothing calls it. An edit received at time \<open>0\<close> is still popped at time \<open>1000\<close>, even
  when the cleanup is run in between, and the step hands its payload to the decoder: the
  outputs are what the decoder makes of that payload.
\<close>

theorem C5_stale_edit_is_still_popped:
  "1000 - cd_timestamp \<lparr>cd_image = Some edit_uri, cd_mask = None, cd_timestamp = 0\<rparr>
     > cleanup_threshold
   \<and> fst (storage_pop ''n1'' (cleanup_old_websocket_data 1000 edited_state))
       = Some (CanvasData \<lparr>cd_image = Some edit_uri, cd_mask = None, cd_timestamp = 0\<rparr>)
   \<and> fst (process_canvas_image cd False ''n1'' None None
            (cleanup_old_websocket_data 1000 edited_state))
       = (case decode_rgb cd ''QUJD'' of
            None \<Rightarrow> Outputs None None
          | Some a \<Rightarrow> Outputs (Some (FromArray a)) (Some (Zeros [1, 512, 512])))"
  by (simp add: step_defs scenario_defs cleanup_old_websocket_data_def cleanup_threshold_def
      split: option.splits)

text \<open>
  Claim C6. For every node id: after \<open>receive\<close> (lines 426-431) the pop of lines 275-276
  returns the snapshot just stored, stamped with the receive time; a second pop returns
  nothing; of two receives the later one wins; and a receive after a pop makes the entry
  present again.
\<close>

theorem C6_pop_once:
  "fst (storage_pop n (receive n i m t st))
     = Some (CanvasData \<lparr>cd_image = i, cd_mask = m, cd_timestamp = t\<rparr>)
   \<and> fst (storage_pop n (snd (storage_pop n (receive n i m t st)))) = None
   \<and> fst (storage_pop n (receive n i' m' t' (receive n i m t st)))
     = Some (CanvasData \<lparr>cd_image = i', cd_mask = m', cd_timestamp = t'\<rparr>)
   \<and> fst (storage_pop n (receive n i' m' t' (snd (storage_pop n (receive n i m t st)))))
     = Some (CanvasData \<lparr>cd_image = i', cd_mask = m', cd_timestamp = t'\<rparr>)"
  by (simp add: storage_pop_def receive_def)

theorem C6_pop_once_witness:
  "fst (storage_pop ''n1'' (receive ''n1'' (Some ''A'') None 1 (initial_state :: string state)))
     = Some (CanvasData \<lparr>cd_image = Some ''A'', cd_mask = None, cd_timestamp = 1\<rparr>)
   \<and> fst (storage_pop ''n1''
        (snd (storage_pop ''n1''
           (receive ''n1'' (Some ''A'') None 1 (initial_state :: string state))))) = None
   \<and> fst (storage_pop ''n1''
        (receive ''n1'' (Some ''B'') None 2
           (receive ''n1'' (Some ''A'') None 1 (initial_state :: string state))))
     = Some (CanvasData \<lparr>cd_image = Some ''B'', cd_mask = None, cd_timestamp = 2\<rparr>)
   \<and> fst (storage_pop ''n1''
        (receive ''n1'' (Some ''B'') None 2
           (snd (storage_pop ''n1''
              (receive ''n1'' (Some ''A'') None 1 (initial_state :: string state))))))
     = Some (CanvasData \<lparr>cd_image = Some ''B'', cd_mask = None, cd_timestamp = 2\<rparr>)"
  by (rule C6_pop_once)

subsection \<open>The poll route\<close>

text \<open>
  Claim C10. The poll route \<^verbatim>\<open>get_input_data\<close> only reads: it leaves the whole state as
  it was, so a second poll for the same node id returns what the first returned.
\<close>

theorem C10_poll_is_pure_read:
  "snd (get_input_data n st) = st
   \<and> fst (get_input_data n (snd (get_input_data n st))) = fst (get_input_data n st)"
  by (simp add: get_input_data_def Let_def split: option.splits)

theorem C10_poll_is_pure_read_witness:
  "snd (get_input_data ''n1''
          (store_input ''n1'' (empty_input_data\<lparr>fit_on_add := Some True\<rparr>)
             (initial_state :: string state)))
     = store_input ''n1'' (empty_input_data\<lparr>fit_on_add := Some True\<rparr>)
         (initial_state :: string state)
   \<and> fst (get_input_data ''n1''
        (snd (get_input_data ''n1''
           (store_input ''n1'' (empty_input_data\<lparr>fit_on_add := Some True\<rparr>)
              (initial_state :: string state)))))
     = fst (get_input_data ''n1''
         (store_input ''n1'' (empty_input_data\<lparr>fit_on_add := Some True\<rparr>)
            (initial_state :: string state)))"
  by (rule C10_poll_is_pure_read)

subsection \<open>What the computation step does once it holds the lock\<close>

text \<open>
  Claim C4, as stated: a run that acquires the lock persists the input, computes the
  execution id and calls \<^verbatim>\<open>restore_cache\<close> before it pops the edit. The step does not
  call \<^verbatim>\<open>restore_cache\<close>: started in the initial state, it leaves \<^verbatim>\<open>last_execution_id\<close> at
  \<^verbatim>\<open>None\<close>, where any call of \<^verbatim>\<open>restore_cache\<close> (here at clock reading
  \<open>12000\<close> milliseconds) records
  the current id. Nor does every run that acquires the lock persist the input: when the
  encoding of an input tensor raises (lines 221-268 come before line 269), the lock has
  been acquired and neither the write nor the pop takes place.
\<close>

theorem C4_step_does_not_restore_counterexample:
  "\<not> processing_lock (initial_state :: sample_tensor state)
   \<and> last_execution_id
         (canvas_cache (snd (process_canvas_image sample_codec False ''n1'' None None
                              initial_state))) = None
   \<and> last_execution_id (restore_cache 12000 (canvas_cache (initial_state :: sample_tensor state)))
       = Some ''12000''
   \<and> canvas_data_storage
         (snd (process_canvas_image sample_codec False ''n1'' (Some (Tensor Malformed)) None
                initial_state)) (input_key ''n1'') = None
   \<and> storage_log
         (snd (process_canvas_image sample_codec False ''n1'' (Some (Tensor Malformed)) None
                initial_state)) = []"
proof -
  have enc: "build_input_data sample_codec False (Some (Tensor Malformed)) None = Inl EncodeError"
    by (simp add: build_input_data_def put_input_image_def sample_codec_def upt_rec)
  have free: "\<not> processing_lock (initial_state :: sample_tensor state)"
    by (simp add: initial_state_def)
  have "process_canvas_image sample_codec False ''n1'' (Some (Tensor Malformed)) None initial_state
          = (Outputs None None, initial_state)"
    using free enc by (rule process_encode_error)
  moreover have "last_execution_id
         (canvas_cache (snd (process_canvas_image sample_codec False ''n1'' None None
                              initial_state))) = None"
    by (simp add: process_keeps_live_fields initial_state_def initial_cache_def)
  ultimately show ?thesis
    using free
    by (simp add: restore_cache_def restore_cache_at_id get_execution_id_example)
       (simp add: initial_state_def)
qed

text \<open>
  Claim C4, amended. A run that acquires the lock and whose input encodes without an
  exception writes the input snapshot under \<^verbatim>\<open>"<node_id>_input"\<close> and after that pops the
  entry of the node id: these are the two writes the run adds to the store, in this
  order, and the store afterwards holds the snapshot and no entry for the node id. The
  run does not change the recorded execution id.
\<close>

theorem C4_input_persisted_then_popped:
  assumes "\<not> processing_lock st" and "build_input_data cd f i m = Inr d"
  shows
    "storage_log (snd (process_canvas_image cd f n i m st))
       = storage_log st @ [Stored (input_key n), Popped n]
     \<and> canvas_data_storage (snd (process_canvas_image cd f n i m st))
       = ((canvas_data_storage st)(input_key n \<mapsto> InputData d))(n := None)
     \<and> last_execution_id (canvas_cache (snd (process_canvas_image cd f n i m st)))
       = last_execution_id (canvas_cache st)"
proof -
  have log:
    "storage_log (snd (process_canvas_image cd f n i m st))
       = storage_log st @ [Stored (input_key n), Popped n]"
    using assms by (simp add: process_entered split: sum.splits prod.splits)
  have storage:
    "canvas_data_storage (snd (process_canvas_image cd f n i m st))
       = ((canvas_data_storage st)(input_key n \<mapsto> InputData d))(n := None)"
    using assms by (simp add: process_entered split: sum.splits prod.splits)
  from log storage process_keeps_live_fields [of cd f n i m st]
  show ?thesis by simp
qed

theorem C4_input_persisted_then_popped_witness:
  "\<not> processing_lock (edited_state :: sample_tensor state)
   \<and> build_input_data sample_codec True (Some (Tensor (Batch1 4 2))) (Some (Tensor (Batch1 4 2)))
       = Inr \<lparr>input_image = Some (data_uri ''iVBORw0KGgo''), input_image_width = Some 4,
              input_image_height = Some 2, input_images_batch = None,
              input_mask = Some (data_uri ''iVBORw0KGgo''), fit_on_add = Some True\<rparr>
   \<and> (storage_log
         (snd (process_canvas_image sample_codec True ''n1'' (Some (Tensor (Batch1 4 2)))
                (Some (Tensor (Batch1 4 2))) edited_state))
       = storage_log (edited_state :: sample_tensor state) @ [Stored (input_key ''n1''), Popped ''n1'']
     \<and> canvas_data_storage
         (snd (process_canvas_image sample_codec True ''n1'' (Some (Tensor (Batch1 4 2)))
                (Some (Tensor (Batch1 4 2))) edited_state))
       = ((canvas_data_storage (edited_state :: sample_tensor state))
            (input_key ''n1'' \<mapsto>
               InputData \<lparr>input_image = Some (data_uri ''iVBORw0KGgo''), input_image_width = Some 4,
                          input_image_height = Some 2, input_images_batch = None,
                          input_mask = Some (data_uri ''iVBORw0KGgo''),
                          fit_on_add = Some True\<rparr>))
            (''n1'' := None)
     \<and> last_execution_id
         (canvas_cache (snd (process_canvas_image sample_codec True ''n1''
                               (Some (Tensor (Batch1 4 2))) (Some (Tensor (Batch1 4 2)))
                               edited_state)))
       = last_execution_id (canvas_cache (edited_state :: sample_tensor state)))
   \<and> storage_log (edited_state :: sample_tensor state) = [Stored ''n1'']
   \<and> canvas_data_storage (edited_state :: sample_tensor state) ''n1''
       = Some (CanvasData \<lparr>cd_image = Some edit_uri, cd_mask = None, cd_timestamp = 0\<rparr>)"
proof -
  have h1: "\<not> processing_lock (edited_state :: sample_tensor state)"
    by (simp add: step_defs scenario_defs)
  have h2: "build_input_data sample_codec True (Some (Tensor (Batch1 4 2)))
              (Some (Tensor (Batch1 4 2)))
       = Inr \<lparr>input_image = Some (data_uri ''iVBORw0KGgo''), input_image_width = Some 4,
              input_image_height = Some 2, input_images_batch = None,
              input_mask = Some (data_uri ''iVBORw0KGgo''), fit_on_add = Some True\<rparr>"
    by (simp add: build_input_data_def put_input_image_def put_input_mask_def sample_codec_def
        empty_input_data_def)
  have h3: "storage_log (edited_state :: sample_tensor state) = [Stored ''n1'']
   \<and> canvas_data_storage (edited_state :: sample_tensor state) ''n1''
       = Some (CanvasData \<lparr>cd_image = Some edit_uri, cd_mask = None, cd_timestamp = 0\<rparr>)"
    by (simp add: step_defs scenario_defs)
  show ?thesis
    by (rule conjI [OF h1 conjI [OF h2 conjI [OF
          C4_input_persisted_then_popped [OF h1 h2, where n = "''n1''"] h3]]])
qed

text \<open>
  Claim C8. A run that acquires the lock and raises nothing, for a node id with no entry
  in the push-channel store, returns the blank image of shape \<open>(1, 512, 512, 3)\<close> and the
  blank mask of shape \<open>(1, 512, 512)\<close>, whatever the cache holds.
\<close>

theorem C8_default_placeholders:
  assumes "\<not> processing_lock st" and "canvas_data_storage st n = None"
    and "build_input_data cd f i m = Inr d"
  shows "fst (process_canvas_image cd f n i m st)
           = Outputs (Some (Zeros [1, 512, 512, 3])) (Some (Zeros [1, 512, 512]))"
  using assms
  by (simp add: process_entered decode_canvas_data_def default_image_shape_def
      default_mask_shape_def)

theorem C8_default_placeholders_witness:
  "\<not> processing_lock (initial_state :: sample_tensor state)
   \<and> canvas_data_storage (initial_state :: sample_tensor state) ''n1'' = None
   \<and> build_input_data sample_codec False None None
       = Inr (empty_input_data\<lparr>fit_on_add := Some False\<rparr>)
   \<and> fst (process_canvas_image sample_codec False ''n1'' None None initial_state)
       = Outputs (Some (Zeros [1, 512, 512, 3])) (Some (Zeros [1, 512, 512]))"
proof -
  have h1: "\<not> processing_lock (initial_state :: sample_tensor state)"
    by (simp add: initial_state_def)
  have h2: "canvas_data_storage (initial_state :: sample_tensor state) ''n1'' = None"
    by (simp add: initial_state_def)
  have h3: "build_input_data sample_codec False None None
              = Inr (empty_input_data\<lparr>fit_on_add := Some False\<rparr>)"
    by (simp add: build_input_data_def put_input_image_def put_input_mask_def)
  from h1 h2 h3 C8_default_placeholders [OF h1 h2 h3] show ?thesis
    by (intro conjI)
qed

subsection \<open>The result cache\<close>

text \<open>
  Claim C7. After a comparison of execution ids with \<open>e1\<close> and a commit of an image and a
  mask, a comparison with \<open>e1\<close> again should leave the committed pair in the live
  fields. The only commit the code makes is the call of \<^verbatim>\<open>update_persistent_cache\<close> on
  line 308, which copies the live fields and never sets them. Whatever the codec: a node
  constructed at clock reading \<open>12000\<close> milliseconds records the execution id
  \<^verbatim>\<open>'12000'\<close>; the step then
  returns the two blank tensors and commits; a comparison at the same clock reading,
  once or twice, keeps the id and leaves both live fields \<^verbatim>\<open>None\<close>, since the persistent
  copy holds \<^verbatim>\<open>{'image': None, 'mask': None}\<close>. The other half of the claim, that a
  different id empties the live fields and is recorded, holds of every cache.
\<close>

theorem C7_same_execution_restores_nothing:
  "last_execution_id (canvas_cache (recorded_state (cd :: 'px codec))) = Some ''12000''
   \<and> fst (recorded_run cd)
       = Outputs (Some (Zeros [1, 512, 512, 3])) (Some (Zeros [1, 512, 512]))
   \<and> persistent_cache (canvas_cache (snd (recorded_run cd)))
       = [(''image'', None), (''mask'', None)]
   \<and> last_execution_id (restore_cache 12000 (canvas_cache (snd (recorded_run cd))))
       = Some ''12000''
   \<and> cache_image (restore_cache 12000 (canvas_cache (snd (recorded_run cd)))) = None
   \<and> cache_mask (restore_cache 12000 (canvas_cache (snd (recorded_run cd)))) = None
   \<and> cache_image (restore_cache 12000
        (restore_cache 12000 (canvas_cache (snd (recorded_run cd))))) = None
   \<and> cache_mask (restore_cache 12000
        (restore_cache 12000 (canvas_cache (snd (recorded_run cd))))) = None"
proof -
  have s1: "process_canvas_image cd False ''n1'' None None initial_state
      = (Outputs (Some (Zeros [1, 512, 512, 3])) (Some (Zeros [1, 512, 512])),
         (initial_state :: 'px state)
           \<lparr>canvas_data_storage :=
              ((canvas_data_storage (initial_state :: 'px state))
                 (input_key ''n1'' \<mapsto> InputData (empty_input_data\<lparr>fit_on_add := Some False\<rparr>)))
                 (''n1'' := None),
            storage_log := storage_log (initial_state :: 'px state)
                             @ [Stored (input_key ''n1''), Popped ''n1''],
            canvas_cache := update_persistent_cache (canvas_cache initial_state)\<rparr>)"
    by (rule process_no_edit) (simp_all add: initial_state_def)
  have ic: "canvas_cache (initial_state :: 'px state) = initial_cache"
    by (simp add: initial_state_def)
  have rec_lock: "\<not> processing_lock (recorded_state cd)"
    by (simp add: recorded_state_def process_leaves_lock_free)
  have rec_none: "canvas_data_storage (recorded_state cd) ''n1'' = None"
    by (simp add: recorded_state_def s1)
  have rec_cache: "canvas_cache (recorded_state cd)
      = initial_cache\<lparr>persistent_cache := [(''image'', None), (''mask'', None)],
                      last_execution_id := Some ''12000''\<rparr>"
    by (simp add: recorded_state_def s1 ic initial_cache_def init_node_def
        restore_cache_def restore_cache_at_def get_execution_id_example
        update_persistent_cache_def)
  have run2: "recorded_run cd
      = (Outputs (Some (Zeros [1, 512, 512, 3])) (Some (Zeros [1, 512, 512])),
         (recorded_state cd)
           \<lparr>canvas_data_storage :=
              ((canvas_data_storage (recorded_state cd))
                 (input_key ''n1'' \<mapsto> InputData (empty_input_data\<lparr>fit_on_add := Some False\<rparr>)))
                 (''n1'' := None),
            storage_log := storage_log (recorded_state cd)
                             @ [Stored (input_key ''n1''), Popped ''n1''],
            canvas_cache := update_persistent_cache (canvas_cache (recorded_state cd))\<rparr>)"
    unfolding recorded_run_def using rec_lock rec_none by (rule process_no_edit)
  have c2: "canvas_cache (snd (recorded_run cd))
      = initial_cache\<lparr>persistent_cache := [(''image'', None), (''mask'', None)],
                      last_execution_id := Some ''12000''\<rparr>"
    by (simp add: run2 rec_cache update_persistent_cache_def initial_cache_def)
  have same: "restore_cache 12000 (canvas_cache (snd (recorded_run cd)))
      = canvas_cache (snd (recorded_run cd))"
    by (simp add: c2 restore_cache_def restore_cache_at_def get_execution_id_example
        initial_cache_def dict_get_def)
  have out: "fst (recorded_run cd)
      = Outputs (Some (Zeros [1, 512, 512, 3])) (Some (Zeros [1, 512, 512]))"
    by (simp add: run2)
  show ?thesis
    by (simp add: same out rec_cache) (simp add: c2 initial_cache_def)
qed

text \<open>
  Claim C9. Whatever operation runs on the class state, the persistent copy afterwards
  is either the one before, or it holds exactly the two live fields, and then the
  operation was a run of the computation step that returned a tuple of two tensors. No
  operation writes one key of the persistent copy.
\<close>

theorem C9_persistent_copied_wholesale:
  "persistent_cache (canvas_cache (run a st)) = persistent_cache (canvas_cache st)
   \<or> (successful_computation a st \<and> copied_wholesale (canvas_cache (run a st)))"
proof (cases a)
  case (ProcessCanvasImage cd f n i m)
  show ?thesis
    unfolding ProcessCanvasImage
    by (rule process_cases [where st = st and cd = cd and f = f and n = n and i = i and m = m])
       (simp_all add: copied_wholesale_update)
next
  case (Init now)
  then show ?thesis
    by (simp add: init_node_def restore_cache_def restore_cache_at_persistent)
next
  case (TrackDataFlow flow_id now stage status data_info)
  then show ?thesis by (simp add: track_data_flow_def)
next
  case GetCachedData
  then show ?thesis by simp
next
  case (CleanupOldWebsocketData now)
  then show ?thesis by (simp add: cleanup_old_websocket_data_def)
next
  case (WebSocketMessage node_id image_data mask_data now)
  then show ?thesis
    by (simp add: handle_canvas_websocket_def receive_def split: option.splits)
next
  case (GetInputData node_id)
  then show ?thesis by (simp add: get_input_data_def Let_def split: option.splits)
next
  case (ClearInputData node_id)
  then show ?thesis by (simp add: clear_input_data_def)
qed

theorem C9_persistent_copied_wholesale_witness:
  "(persistent_cache (canvas_cache (run (ProcessCanvasImage sample_codec False ''n1'' None None)
                                       initial_state))
      = persistent_cache (canvas_cache (initial_state :: sample_tensor state))
    \<or> (successful_computation (ProcessCanvasImage sample_codec False ''n1'' None None)
         initial_state
       \<and> copied_wholesale
            (canvas_cache (run (ProcessCanvasImage sample_codec False ''n1'' None None)
                               initial_state))))
   \<and> persistent_cache (canvas_cache (run (ProcessCanvasImage sample_codec False ''n1'' None None)
                                         initial_state))
      = [(''image'', None), (''mask'', None)]
   \<and> persistent_cache (canvas_cache (initial_state :: sample_tensor state)) = []"
proof -
  have a: "persistent_cache (canvas_cache (run (ProcessCanvasImage sample_codec False ''n1'' None None)
                                       initial_state))
      = persistent_cache (canvas_cache (initial_state :: sample_tensor state))
    \<or> (successful_computation (ProcessCanvasImage sample_codec False ''n1'' None None)
         initial_state
       \<and> copied_wholesale
            (canvas_cache (run (ProcessCanvasImage sample_codec False ''n1'' None None)
                               initial_state)))"
    by (rule C9_persistent_copied_wholesale)
  have b: "persistent_cache (canvas_cache (run (ProcessCanvasImage sample_codec False ''n1'' None None)
                                         initial_state))
      = [(''image'', None), (''mask'', None)]
   \<and> persistent_cache (canvas_cache (initial_state :: sample_tensor state)) = []"
    by (simp add: step_defs)
  show ?thesis by (rule conjI [OF a b])
qed

end
